theory Spec2Isabelle
  imports Main
begin

section \<open>Configuration: app/config.py\<close>

text \<open>
  The class \<open>Settings\<close> of app/config.py, one field per declared attribute. The four
  service fields are \<open>Optional[str]\<close> with default \<open>None\<close>; an environment variable set
  to the empty string yields \<open>Some []\<close>. The module global \<open>settings\<close> is passed
  explicitly to every function that lives in a module importing it.
\<close>

record Settings =
  app_name :: string
  debug :: bool
  host :: string
  port :: int
  database_url :: string
  sonarr_url :: "string option"
  sonarr_api_key :: "string option"
  radarr_url :: "string option"
  radarr_api_key :: "string option"
  log_level :: string

text \<open>
  Python truth value of an \<open>Optional[str]\<close>: \<open>None\<close> and the empty string are falsy,
  every other string is truthy.
\<close>

definition truthy :: "string option \<Rightarrow> bool" where
  "truthy v = (case v of None \<Rightarrow> False | Some s \<Rightarrow> s \<noteq> [])"

text \<open>Python's \<open>a and b\<close>: the left operand when it is falsy, the right one otherwise.\<close>

definition py_and :: "string option \<Rightarrow> string option \<Rightarrow> string option" where
  "py_and a b = (if truthy a then b else a)"

text \<open>\<open>return bool(self.sonarr_url and self.sonarr_api_key)\<close>\<close>

definition sonarr_configured :: "Settings \<Rightarrow> bool" where
  "sonarr_configured settings = truthy (py_and (sonarr_url settings) (sonarr_api_key settings))"

text \<open>\<open>return bool(self.radarr_url and self.radarr_api_key)\<close>\<close>

definition radarr_configured :: "Settings \<Rightarrow> bool" where
  "radarr_configured settings = truthy (py_and (radarr_url settings) (radarr_api_key settings))"

text \<open>\<open>__version__ = "0.1.0"\<close> of app/__init__.py.\<close>

definition app_version :: string where
  "app_version = ''0.1.0''"

section \<open>HTTP plumbing\<close>

text \<open>
  An \<open>HTTPException\<close> carries a status code and a detail, which the routes give either
  as a string or as a dictionary of strings. A request whose body fails the pydantic
  field constraints never reaches the handler: FastAPI answers 422 itself.
\<close>

datatype detail = DetailStr string | DetailDict "(string \<times> string) list"

datatype http_error =
    HTTPException nat detail
  | RequestValidationError

definition HTTP_200_OK :: nat where "HTTP_200_OK = 200"
definition HTTP_201_CREATED :: nat where "HTTP_201_CREATED = 201"
definition HTTP_404_NOT_FOUND :: nat where "HTTP_404_NOT_FOUND = 404"
definition HTTP_422_UNPROCESSABLE_ENTITY :: nat where "HTTP_422_UNPROCESSABLE_ENTITY = 422"
definition HTTP_503_SERVICE_UNAVAILABLE :: nat where "HTTP_503_SERVICE_UNAVAILABLE = 503"

text \<open>The status code a client sees for a raised error.\<close>

fun error_status :: "http_error \<Rightarrow> nat" where
  "error_status (HTTPException code d) = code"
| "error_status RequestValidationError = HTTP_422_UNPROCESSABLE_ENTITY"

text \<open>
  A route answers with the status code of its decorator when the handler returns, and
  with the error when the handler (or the validation before it) raises.
\<close>

definition respond :: "nat \<Rightarrow> http_error + 'a \<Rightarrow> http_error + nat \<times> 'a" where
  "respond code r = (case r of Inl e \<Rightarrow> Inl e | Inr body \<Rightarrow> Inr (code, body))"

text \<open>Python's \<open>str\<close> of an integer, as the f-strings of the routes format a movie id.\<close>

fun str_nat :: "nat \<Rightarrow> string" where
  "str_nat n =
     (if n < 10 then [''0123456789'' ! n]
      else str_nat (n div 10) @ [''0123456789'' ! (n mod 10)])"

definition str_int :: "int \<Rightarrow> string" where
  "str_int i = (if i < 0 then CHR ''-'' # str_nat (nat (- i)) else str_nat (nat i))"

section \<open>Sonarr routes: app/api/routes/sonarr.py\<close>

record SonarrConnectionRequest =
  sc_url :: string
  sc_api_key :: string

text \<open>
  The field constraints of \<open>SonarrConnectionRequest\<close>: \<open>url\<close> is any string,
  \<open>api_key\<close> has \<open>min_length=32\<close> and \<open>max_length=32\<close>.
\<close>

definition SonarrConnectionRequest_validate ::
  "string \<Rightarrow> string \<Rightarrow> http_error + SonarrConnectionRequest" where
  "SonarrConnectionRequest_validate url api_key =
     (if length api_key < 32 \<or> 32 < length api_key then Inl RequestValidationError
      else Inr \<lparr>sc_url = url, sc_api_key = api_key\<rparr>)"

record SonarrStatusResponse =
  ss_connected :: bool
  ss_version :: "string option"
  ss_url :: "string option"
  ss_error :: "string option"

record SonarrSeriesResponse =
  se_id :: int
  se_title :: string
  se_year :: int
  se_path :: string
  se_monitored :: bool
  se_tags :: "int list"
  se_quality_profile_id :: int

record SonarrTagResponse =
  st_id :: int
  st_label :: string

text \<open>
  \<open>require_sonarr_configured\<close>: raises 503 when \<open>settings.sonarr_configured\<close> is false,
  returns \<open>None\<close> otherwise. The log line has no effect on the result.
\<close>

definition require_sonarr_configured :: "Settings \<Rightarrow> http_error + unit" where
  "require_sonarr_configured settings =
     (if \<not> sonarr_configured settings then
        Inl (HTTPException HTTP_503_SERVICE_UNAVAILABLE
          (DetailDict
            [(''error'', ''Sonarr not configured''),
             (''message'', ''Please set SONARR_URL and SONARR_API_KEY environment variables''),
             (''docs'', ''See /docs for configuration instructions'')]))
      else Inr ())"

definition get_sonarr_status :: "Settings \<Rightarrow> http_error + SonarrStatusResponse" where
  "get_sonarr_status settings =
     (if \<not> sonarr_configured settings then
        Inr \<lparr>ss_connected = False, ss_version = None, ss_url = None,
             ss_error = Some ''Sonarr not configured. Set SONARR_URL and SONARR_API_KEY.''\<rparr>
      else
        Inr \<lparr>ss_connected = True, ss_version = Some ''(pending implementation)'',
             ss_url = sonarr_url settings, ss_error = None\<rparr>)"

definition test_sonarr_connection ::
  "Settings \<Rightarrow> SonarrConnectionRequest \<Rightarrow> http_error + SonarrStatusResponse" where
  "test_sonarr_connection settings connection =
     Inr \<lparr>ss_connected = True, ss_version = Some ''(pending implementation)'',
          ss_url = Some (sc_url connection), ss_error = None\<rparr>"

definition get_all_series :: "Settings \<Rightarrow> http_error + SonarrSeriesResponse list" where
  "get_all_series settings =
     (case require_sonarr_configured settings of
        Inl e \<Rightarrow> Inl e
      | Inr u \<Rightarrow> Inr [])"

definition sonarr_get_all_tags :: "Settings \<Rightarrow> http_error + SonarrTagResponse list" where
  "sonarr_get_all_tags settings =
     (case require_sonarr_configured settings of
        Inl e \<Rightarrow> Inl e
      | Inr u \<Rightarrow> Inr [])"

text \<open>
  POST /api/v1/sonarr/test-connection as the client sees it: the body is validated, then
  the handler runs; the decorator names no status code, so a return is a 200.
\<close>

definition route_test_sonarr_connection ::
  "Settings \<Rightarrow> string \<Rightarrow> string \<Rightarrow> http_error + nat \<times> SonarrStatusResponse" where
  "route_test_sonarr_connection settings url api_key =
     (case SonarrConnectionRequest_validate url api_key of
        Inl e \<Rightarrow> Inl e
      | Inr connection \<Rightarrow> respond HTTP_200_OK (test_sonarr_connection settings connection))"

section \<open>Radarr routes: app/api/routes/radarr.py\<close>

record RadarrConnectionRequest =
  rc_url :: string
  rc_api_key :: string

definition RadarrConnectionRequest_validate ::
  "string \<Rightarrow> string \<Rightarrow> http_error + RadarrConnectionRequest" where
  "RadarrConnectionRequest_validate url api_key =
     (if length api_key < 32 \<or> 32 < length api_key then Inl RequestValidationError
      else Inr \<lparr>rc_url = url, rc_api_key = api_key\<rparr>)"

record RadarrStatusResponse =
  rs_connected :: bool
  rs_version :: "string option"
  rs_url :: "string option"
  rs_error :: "string option"

record RadarrMovieResponse =
  mv_id :: int
  mv_title :: string
  mv_year :: int
  mv_path :: string
  mv_monitored :: bool
  mv_tags :: "int list"
  mv_quality_profile_id :: int
  mv_has_file :: bool
  mv_runtime :: int

record RadarrTagResponse =
  rt_id :: int
  rt_label :: string

record RadarrTagCreateRequest =
  tc_label :: string

text \<open>The field constraints of \<open>RadarrTagCreateRequest\<close>: \<open>min_length=1\<close>, \<open>max_length=50\<close>.\<close>

definition RadarrTagCreateRequest_validate :: "string \<Rightarrow> http_error + RadarrTagCreateRequest" where
  "RadarrTagCreateRequest_validate label =
     (if length label < 1 \<or> 50 < length label then Inl RequestValidationError
      else Inr \<lparr>tc_label = label\<rparr>)"

definition require_radarr_configured :: "Settings \<Rightarrow> http_error + unit" where
  "require_radarr_configured settings =
     (if \<not> radarr_configured settings then
        Inl (HTTPException HTTP_503_SERVICE_UNAVAILABLE
          (DetailDict
            [(''error'', ''Radarr not configured''),
             (''message'', ''Please set RADARR_URL and RADARR_API_KEY environment variables''),
             (''docs'', ''See /docs for configuration instructions'')]))
      else Inr ())"

definition get_radarr_status :: "Settings \<Rightarrow> http_error + RadarrStatusResponse" where
  "get_radarr_status settings =
     (if \<not> radarr_configured settings then
        Inr \<lparr>rs_connected = False, rs_version = None, rs_url = None,
             rs_error = Some ''Radarr not configured. Set RADARR_URL and RADARR_API_KEY.''\<rparr>
      else
        Inr \<lparr>rs_connected = True, rs_version = Some ''(pending implementation)'',
             rs_url = radarr_url settings, rs_error = None\<rparr>)"

definition test_radarr_connection ::
  "Settings \<Rightarrow> RadarrConnectionRequest \<Rightarrow> http_error + RadarrStatusResponse" where
  "test_radarr_connection settings connection =
     Inr \<lparr>rs_connected = True, rs_version = Some ''(pending implementation)'',
          rs_url = Some (rc_url connection), rs_error = None\<rparr>"

definition get_all_movies :: "Settings \<Rightarrow> http_error + RadarrMovieResponse list" where
  "get_all_movies settings =
     (case require_radarr_configured settings of
        Inl e \<Rightarrow> Inl e
      | Inr u \<Rightarrow> Inr [])"

text \<open>
  \<open>get_movie\<close>: after the guard, the handler raises 404 with the f-string
  \<open>Movie {movie_id} not found (endpoint pending implementation)\<close>. No return statement
  is reachable.
\<close>

definition get_movie :: "Settings \<Rightarrow> int \<Rightarrow> http_error + RadarrMovieResponse" where
  "get_movie settings movie_id =
     (case require_radarr_configured settings of
        Inl e \<Rightarrow> Inl e
      | Inr u \<Rightarrow>
          Inl (HTTPException HTTP_404_NOT_FOUND
            (DetailStr (''Movie '' @ str_int movie_id @
               '' not found (endpoint pending implementation)''))))"

definition radarr_get_all_tags :: "Settings \<Rightarrow> http_error + RadarrTagResponse list" where
  "radarr_get_all_tags settings =
     (case require_radarr_configured settings of
        Inl e \<Rightarrow> Inl e
      | Inr u \<Rightarrow> Inr [])"

text \<open>\<open>create_tag\<close>: after the guard, the placeholder id 999 and the label of the request.\<close>

definition create_tag :: "Settings \<Rightarrow> RadarrTagCreateRequest \<Rightarrow> http_error + RadarrTagResponse" where
  "create_tag settings tag =
     (case require_radarr_configured settings of
        Inl e \<Rightarrow> Inl e
      | Inr u \<Rightarrow> Inr \<lparr>rt_id = 999, rt_label = tc_label tag\<rparr>)"

definition update_movie_tags ::
  "Settings \<Rightarrow> int \<Rightarrow> int list \<Rightarrow> http_error + RadarrMovieResponse" where
  "update_movie_tags settings movie_id tag_ids =
     (case require_radarr_configured settings of
        Inl e \<Rightarrow> Inl e
      | Inr u \<Rightarrow>
          Inl (HTTPException HTTP_404_NOT_FOUND
            (DetailStr (''Movie '' @ str_int movie_id @
               '' not found (endpoint pending implementation)''))))"

text \<open>
  The two Radarr routes with a validated body, as the client sees them. POST /tags is
  declared with \<open>status_code=status.HTTP_201_CREATED\<close>.
\<close>

definition route_test_radarr_connection ::
  "Settings \<Rightarrow> string \<Rightarrow> string \<Rightarrow> http_error + nat \<times> RadarrStatusResponse" where
  "route_test_radarr_connection settings url api_key =
     (case RadarrConnectionRequest_validate url api_key of
        Inl e \<Rightarrow> Inl e
      | Inr connection \<Rightarrow> respond HTTP_200_OK (test_radarr_connection settings connection))"

definition route_create_tag ::
  "Settings \<Rightarrow> string \<Rightarrow> http_error + nat \<times> RadarrTagResponse" where
  "route_create_tag settings label =
     (case RadarrTagCreateRequest_validate label of
        Inl e \<Rightarrow> Inl e
      | Inr tag \<Rightarrow> respond HTTP_201_CREATED (create_tag settings tag))"

section \<open>Health routes: app/api/routes/health.py\<close>

record HealthResponse =
  h_status :: string
  h_timestamp :: string
  h_version :: string

text \<open>The values of the \<open>Dict[str, Any]\<close> fields of the detailed response.\<close>

datatype any = AStr string | ABool bool | ANone | ADict "(string \<times> any) list"

record DetailedHealthResponse =
  dh_status :: string
  dh_timestamp :: string
  dh_version :: string
  dh_services :: "(string \<times> any) list"
  dh_config :: "(string \<times> any) list"

fun any_of_optional :: "string option \<Rightarrow> any" where
  "any_of_optional None = ANone"
| "any_of_optional (Some s) = AStr s"

text \<open>
  The clock is an input: \<open>now\<close> stands for \<open>datetime.now(timezone.utc).isoformat()\<close>.
\<close>

definition health_check :: "Settings \<Rightarrow> string \<Rightarrow> HealthResponse" where
  "health_check settings now =
     \<lparr>h_status = ''healthy'', h_timestamp = now, h_version = app_version\<rparr>"

definition detailed_health_check :: "Settings \<Rightarrow> string \<Rightarrow> DetailedHealthResponse" where
  "detailed_health_check settings now =
     (let services =
        [(''database'', ADict
            [(''status'', AStr ''not_implemented''),
             (''note'', AStr ''Database health check will be added in Phase 1'')]),
         (''sonarr'', ADict
            [(''status'', AStr (if sonarr_configured settings then ''configured''
                                else ''not_configured'')),
             (''url'', if sonarr_configured settings then any_of_optional (sonarr_url settings)
                       else ANone)]),
         (''radarr'', ADict
            [(''status'', AStr (if radarr_configured settings then ''configured''
                                else ''not_configured'')),
             (''url'', if radarr_configured settings then any_of_optional (radarr_url settings)
                       else ANone)])];
          overall_status = ''healthy''
      in \<lparr>dh_status = overall_status, dh_timestamp = now, dh_version = app_version,
           dh_services = services,
           dh_config = [(''debug'', ABool (debug settings)),
                        (''log_level'', AStr (log_level settings))]\<rparr>)"

text \<open>Both health routes are declared with \<open>status_code=status.HTTP_200_OK\<close>.\<close>

definition route_health :: "Settings \<Rightarrow> string \<Rightarrow> http_error + nat \<times> HealthResponse" where
  "route_health settings now = respond HTTP_200_OK (Inr (health_check settings now))"

definition route_health_detailed ::
  "Settings \<Rightarrow> string \<Rightarrow> http_error + nat \<times> DetailedHealthResponse" where
  "route_health_detailed settings now =
     respond HTTP_200_OK (Inr (detailed_health_check settings now))"

section \<open>Concrete configurations\<close>

text \<open>
  The defaults of \<open>Settings\<close> (nothing set in the environment), and a deployment with
  both services set.
\<close>

definition default_settings :: Settings where
  "default_settings =
     \<lparr>app_name = ''MicroManagerr'', debug = False, host = ''0.0.0.0'', port = 8000,
      database_url = ''sqlite+aiosqlite:///./data/micromanagerr.db'',
      sonarr_url = None, sonarr_api_key = None,
      radarr_url = None, radarr_api_key = None,
      log_level = ''INFO''\<rparr>"

definition configured_settings :: Settings where
  "configured_settings =
     default_settings
       \<lparr>sonarr_url := Some ''http://localhost:8989'',
        sonarr_api_key := Some ''0123456789abcdef0123456789abcdef'',
        radarr_url := Some ''http://localhost:7878'',
        radarr_api_key := Some ''fedcba9876543210fedcba9876543210''\<rparr>"

section \<open>Tag reconciliation: the design of the specification, sections 3 and 4\<close>

text \<open>
  Modelled from the spec: the remote tag store client and the tag reconciliation engine.
  The repository holds neither: app/core/__init__.py names \<open>arr_client.py\<close> and
  \<open>tag_manager.py\<close> as modules still to be written, and the routes above are the only
  code that touches tags. Every definition of this section follows the words of the
  specification (data model of section 3, client contract of section 4.1, engine
  algorithm of section 4.2), not a source file.
\<close>

datatype client_error = Unreachable | AuthFailed | NotFound | Conflict

datatype DetectedAttribute = HDR10 | DolbyVision | IMAX | ExtendedEdition

datatype policy = Additive | Authoritative

record Tag =
  tag_id :: int
  label :: string

record Item =
  item_id :: int
  current_tags :: "int set"
  runtime_minutes :: "int option"

text \<open>
  Modelled from the spec: \<open>Applied(diff)\<close> with diff = (tags added, tags removed), \<open>NoopAlreadyConverged\<close>,
  \<open>Failed(error)\<close>.
\<close>

datatype ReconciliationResult =
    Applied "int set" "int set"
  | NoopAlreadyConverged
  | Failed client_error

text \<open>
  Modelled from the spec: the remote instance as the client sees it: its tags in creation order, the id it
  assigns to the next tag, its items, whether the transport reaches it and whether it
  accepts the credentials. \<open>set_item_tags_calls\<close> counts the \<open>setItemTags\<close> calls made
  on it. Nothing but the client operations below changes a remote ("no external state
  change").
\<close>

record remote =
  remote_tags :: "Tag list"
  next_tag_id :: int
  remote_items :: "int \<Rightarrow> Item option"
  reachable :: bool
  authorized :: bool
  set_item_tags_calls :: nat

text \<open>
  Modelled from the spec: the operator's configuration: the additive-or-authoritative policy, the static table
  from detected attribute to tag label, and the canonical form of a label.
\<close>

record reconcile_config =
  tag_policy :: policy
  label_for :: "DetectedAttribute \<Rightarrow> string"
  canonical :: "string \<Rightarrow> string"

text \<open>Modelled from the spec: \<open>listTags\<close>: fails with \<open>Unreachable\<close> or \<open>AuthFailed\<close>.\<close>

definition listTags :: "remote \<Rightarrow> client_error + Tag list" where
  "listTags r =
     (if \<not> reachable r then Inl Unreachable
      else if \<not> authorized r then Inl AuthFailed
      else Inr (remote_tags r))"

text \<open>
  Modelled from the spec: \<open>createTag\<close>: idempotent by label through the list-then-create-if-absent protocol.
  The label is canonicalized before the lookup; an existing tag is returned as it is;
  \<open>Conflict\<close> only when the remote rejects the label (the empty one); otherwise the remote
  assigns the next id.
\<close>

definition createTag :: "(string \<Rightarrow> string) \<Rightarrow> remote \<Rightarrow> string \<Rightarrow> (client_error + Tag) \<times> remote" where
  "createTag canon r l =
     (case listTags r of
        Inl e \<Rightarrow> (Inl e, r)
      | Inr ts \<Rightarrow>
          (case find (\<lambda>t. label t = canon l) ts of
             Some t \<Rightarrow> (Inr t, r)
           | None \<Rightarrow>
               if canon l = [] then (Inl Conflict, r)
               else
                 (Inr \<lparr>tag_id = next_tag_id r, label = canon l\<rparr>,
                  r\<lparr>remote_tags := ts @ [\<lparr>tag_id = next_tag_id r, label = canon l\<rparr>],
                    next_tag_id := next_tag_id r + 1\<rparr>)))"

text \<open>Modelled from the spec: \<open>getItem\<close>: \<open>Unreachable\<close> on transport failure, \<open>NotFound\<close> when the item is gone.\<close>

definition getItem :: "remote \<Rightarrow> int \<Rightarrow> client_error + Item" where
  "getItem r i =
     (if \<not> reachable r then Inl Unreachable
      else case remote_items r i of
             None \<Rightarrow> Inl NotFound
           | Some it \<Rightarrow> Inr it)"

text \<open>
  Modelled from the spec: \<open>setItemTags(item_id, tag_ids, expected_version)\<close>: a full replace of the item's tag
  set. The caller supplies the full item as it was just read, which stands for the
  expected version: \<open>Conflict\<close> when the remote item differs from it, \<open>NotFound\<close> when
  the item is gone. Every call is counted, whatever its outcome.
\<close>

definition setItemTags ::
  "remote \<Rightarrow> int \<Rightarrow> int set \<Rightarrow> Item \<Rightarrow> (client_error + unit) \<times> remote" where
  "setItemTags r i tag_ids payload =
     (let r1 = r\<lparr>set_item_tags_calls := set_item_tags_calls r + 1\<rparr> in
      if \<not> reachable r then (Inl Unreachable, r1)
      else case remote_items r i of
             None \<Rightarrow> (Inl NotFound, r1)
           | Some stored \<Rightarrow>
               if stored \<noteq> payload then (Inl Conflict, r1)
               else (Inr (),
                     r1\<lparr>remote_items :=
                          (remote_items r)(i \<mapsto> payload\<lparr>current_tags := tag_ids\<rparr>)\<rparr>))"

text \<open>
  Modelled from the spec: Step 3 of the engine: each detected attribute is resolved to a tag through
  \<open>createTag\<close>; the first failure ends the resolution.
\<close>

fun resolve_all ::
  "reconcile_config \<Rightarrow> remote \<Rightarrow> DetectedAttribute list \<Rightarrow> (client_error + int set) \<times> remote" where
  "resolve_all cfg r [] = (Inr {}, r)"
| "resolve_all cfg r (a # rest) =
     (case createTag (canonical cfg) r (label_for cfg a) of
        (Inl e, r1) \<Rightarrow> (Inl e, r1)
      | (Inr t, r1) \<Rightarrow>
          (case resolve_all cfg r1 rest of
             (Inl e, r2) \<Rightarrow> (Inl e, r2)
           | (Inr ids, r2) \<Rightarrow> (Inr (insert (tag_id t) ids), r2)))"

text \<open>
  Modelled from the spec: Step 4: additive is \<open>current_tags \<union> resolved_tag_ids\<close>, authoritative is
  \<open>resolved_tag_ids\<close> exactly.
\<close>

definition desired_tags :: "policy \<Rightarrow> int set \<Rightarrow> int set \<Rightarrow> int set" where
  "desired_tags p current resolved =
     (case p of Additive \<Rightarrow> current \<union> resolved | Authoritative \<Rightarrow> resolved)"

text \<open>
  Modelled from the spec: the engine, steps 1 to 6 for one item: fetch the item, resolve the detected
  attributes, compute the desired set, return \<open>NoopAlreadyConverged\<close> without a write
  when it equals the current set, otherwise call \<open>setItemTags\<close> once with the item as read
  and return \<open>Applied\<close> with the diff, or \<open>Failed\<close> with the error of the failing call.
\<close>

definition reconcile ::
  "reconcile_config \<Rightarrow> remote \<Rightarrow> int \<Rightarrow> DetectedAttribute list \<Rightarrow> ReconciliationResult \<times> remote" where
  "reconcile cfg r i detected =
     (case getItem r i of
        Inl e \<Rightarrow> (Failed e, r)
      | Inr item \<Rightarrow>
          (case resolve_all cfg r detected of
             (Inl e, r1) \<Rightarrow> (Failed e, r1)
           | (Inr resolved, r1) \<Rightarrow>
               (let desired = desired_tags (tag_policy cfg) (current_tags item) resolved in
                if desired = current_tags item then (NoopAlreadyConverged, r1)
                else
                  (case setItemTags r1 i desired item of
                     (Inl e, r2) \<Rightarrow> (Failed e, r2)
                   | (Inr u, r2) \<Rightarrow>
                       (Applied (desired - current_tags item) (current_tags item - desired),
                        r2)))))"


text \<open>
  Modelled from the spec: A concrete remote and configuration: movie 7 carries the tags 1 and 2, tag 2 is a
  label of the user's own, and Dolby Vision maps to a label the remote does not know
  yet.
\<close>

definition example_config :: reconcile_config where
  "example_config =
     \<lparr>tag_policy = Additive,
      label_for = (\<lambda>a. case a of HDR10 \<Rightarrow> ''hdr'' | DolbyVision \<Rightarrow> ''dolby-vision''
                              | IMAX \<Rightarrow> ''imax'' | ExtendedEdition \<Rightarrow> ''extended-edition''),
      canonical = (\<lambda>l. l)\<rparr>"

definition example_remote :: remote where
  "example_remote =
     \<lparr>remote_tags = [\<lparr>tag_id = 1, label = ''hdr''\<rparr>, \<lparr>tag_id = 2, label = ''favorite''\<rparr>],
      next_tag_id = 3,
      remote_items = [7 \<mapsto> \<lparr>item_id = 7, current_tags = {1, 2}, runtime_minutes = Some 136\<rparr>],
      reachable = True,
      authorized = True,
      set_item_tags_calls = 0\<rparr>"

text \<open>Modelled from the spec: the same remote after one reconciliation of movie 7 with Dolby Vision detected.\<close>

definition example_remote_applied :: remote where
  "example_remote_applied =
     \<lparr>remote_tags = [\<lparr>tag_id = 1, label = ''hdr''\<rparr>, \<lparr>tag_id = 2, label = ''favorite''\<rparr>,
                     \<lparr>tag_id = 3, label = ''dolby-vision''\<rparr>],
      next_tag_id = 4,
      remote_items = [7 \<mapsto> \<lparr>item_id = 7, current_tags = {1, 2, 3}, runtime_minutes = Some 136\<rparr>],
      reachable = True,
      authorized = True,
      set_item_tags_calls = 1\<rparr>"


section \<open>The configuration flags\<close>

lemma truthy_iff: "truthy v \<longleftrightarrow> (\<exists>s. v = Some s \<and> s \<noteq> [])"
  by (cases v) (simp_all add: truthy_def)

lemma truthy_py_and: "truthy (py_and a b) \<longleftrightarrow> truthy a \<and> truthy b"
  by (simp add: py_and_def)

lemma sonarr_configured_iff:
  "sonarr_configured settings \<longleftrightarrow>
     (\<exists>u k. sonarr_url settings = Some u \<and> u \<noteq> [] \<and> sonarr_api_key settings = Some k \<and> k \<noteq> [])"
  unfolding sonarr_configured_def truthy_py_and by (auto simp: truthy_iff)

lemma radarr_configured_iff:
  "radarr_configured settings \<longleftrightarrow>
     (\<exists>u k. radarr_url settings = Some u \<and> u \<noteq> [] \<and> radarr_api_key settings = Some k \<and> k \<noteq> [])"
  unfolding radarr_configured_def truthy_py_and by (auto simp: truthy_iff)

lemma configured_settings_sonarr: "sonarr_configured configured_settings"
  by (simp add: sonarr_configured_def configured_settings_def default_settings_def truthy_def py_and_def)

lemma configured_settings_radarr: "radarr_configured configured_settings"
  by (simp add: radarr_configured_def configured_settings_def default_settings_def truthy_def py_and_def)

lemma default_settings_sonarr: "\<not> sonarr_configured default_settings"
  by (simp add: sonarr_configured_def default_settings_def truthy_def py_and_def)

lemma default_settings_radarr: "\<not> radarr_configured default_settings"
  by (simp add: radarr_configured_def default_settings_def truthy_def py_and_def)

text \<open>
  Claim C9. \<open>settings.sonarr_configured\<close> (and likewise \<open>settings.radarr_configured\<close>) is
  true exactly when both the URL field and the API key field hold a string that is not
  empty. A field left at \<open>None\<close> or set to the empty string makes the service count as not
  configured, whatever the other field holds.
\<close>

theorem configured_iff_url_and_key_nonempty:
  "(sonarr_configured settings \<longleftrightarrow>
      (\<exists>u k. sonarr_url settings = Some u \<and> u \<noteq> [] \<and>
             sonarr_api_key settings = Some k \<and> k \<noteq> [])) \<and>
   (radarr_configured settings \<longleftrightarrow>
      (\<exists>u k. radarr_url settings = Some u \<and> u \<noteq> [] \<and>
             radarr_api_key settings = Some k \<and> k \<noteq> [])) \<and>
   \<not> sonarr_configured (settings\<lparr>sonarr_url := Some []\<rparr>) \<and>
   \<not> sonarr_configured (settings\<lparr>sonarr_api_key := Some []\<rparr>) \<and>
   \<not> radarr_configured (settings\<lparr>radarr_url := Some []\<rparr>) \<and>
   \<not> radarr_configured (settings\<lparr>radarr_api_key := Some []\<rparr>)"
  by (simp add: sonarr_configured_iff radarr_configured_iff)

section \<open>The guard and the routes behind it\<close>

lemma require_sonarr_cases:
  "require_sonarr_configured settings =
     (if sonarr_configured settings then Inr ()
      else Inl (HTTPException 503
        (DetailDict
          [(''error'', ''Sonarr not configured''),
           (''message'', ''Please set SONARR_URL and SONARR_API_KEY environment variables''),
           (''docs'', ''See /docs for configuration instructions'')])))"
  by (simp add: require_sonarr_configured_def HTTP_503_SERVICE_UNAVAILABLE_def)

lemma require_radarr_cases:
  "require_radarr_configured settings =
     (if radarr_configured settings then Inr ()
      else Inl (HTTPException 503
        (DetailDict
          [(''error'', ''Radarr not configured''),
           (''message'', ''Please set RADARR_URL and RADARR_API_KEY environment variables''),
           (''docs'', ''See /docs for configuration instructions'')])))"
  by (simp add: require_radarr_configured_def HTTP_503_SERVICE_UNAVAILABLE_def)

text \<open>
  Claim C1. The guard \<open>require_sonarr_configured\<close> (\<open>require_radarr_configured\<close>) returns
  without error exactly when the service is configured and raises HTTP 503 exactly when
  it is not. Each guarded handler (Sonarr: series list, tag list; Radarr: movie list,
  single movie, tag creation, movie tag update) ends in a 503 exactly when its service is
  not configured: with the service configured the guard lets the handler go on to its
  own answer, which is never a 503. The handlers are taken on arguments that passed
  request validation, which FastAPI runs before it calls them.
\<close>

theorem guard_raises_503_iff_not_configured:
  "(require_sonarr_configured settings = Inr () \<longleftrightarrow> sonarr_configured settings) \<and>
   ((\<exists>d. require_sonarr_configured settings = Inl (HTTPException 503 d)) \<longleftrightarrow>
      \<not> sonarr_configured settings) \<and>
   (require_radarr_configured settings = Inr () \<longleftrightarrow> radarr_configured settings) \<and>
   ((\<exists>d. require_radarr_configured settings = Inl (HTTPException 503 d)) \<longleftrightarrow>
      \<not> radarr_configured settings) \<and>
   ((\<exists>d. get_all_series settings = Inl (HTTPException 503 d)) \<longleftrightarrow>
      \<not> sonarr_configured settings) \<and>
   ((\<exists>d. sonarr_get_all_tags settings = Inl (HTTPException 503 d)) \<longleftrightarrow>
      \<not> sonarr_configured settings) \<and>
   ((\<exists>d. get_all_movies settings = Inl (HTTPException 503 d)) \<longleftrightarrow>
      \<not> radarr_configured settings) \<and>
   ((\<exists>d. get_movie settings movie_id = Inl (HTTPException 503 d)) \<longleftrightarrow>
      \<not> radarr_configured settings) \<and>
   ((\<exists>d. create_tag settings tag = Inl (HTTPException 503 d)) \<longleftrightarrow>
      \<not> radarr_configured settings) \<and>
   ((\<exists>d. update_movie_tags settings movie_id tag_ids = Inl (HTTPException 503 d)) \<longleftrightarrow>
      \<not> radarr_configured settings)"
  by (simp add: require_sonarr_cases require_radarr_cases get_all_series_def
      sonarr_get_all_tags_def get_all_movies_def get_movie_def create_tag_def
      update_movie_tags_def HTTP_404_NOT_FOUND_def)

text \<open>
  Claim C2. With the service configured, the three listing handlers (Sonarr series,
  Sonarr tags, Radarr movies) return the empty list, whatever else the settings hold.
  They take no request parameters.
\<close>

theorem listing_endpoints_return_empty:
  "(sonarr_configured settings \<longrightarrow>
      get_all_series settings = Inr [] \<and> sonarr_get_all_tags settings = Inr []) \<and>
   (radarr_configured settings \<longrightarrow> get_all_movies settings = Inr [])"
  by (simp add: require_sonarr_cases require_radarr_cases get_all_series_def
      sonarr_get_all_tags_def get_all_movies_def)

theorem listing_endpoints_return_empty_witness:
  "sonarr_configured configured_settings \<and> radarr_configured configured_settings \<and>
   get_all_series configured_settings = Inr [] \<and>
   sonarr_get_all_tags configured_settings = Inr [] \<and>
   get_all_movies configured_settings = Inr []"
  using listing_endpoints_return_empty [of configured_settings]
    configured_settings_sonarr configured_settings_radarr
  by simp

text \<open>
  Claim C8. POST /test-connection of either service answers 200 with
  \<open>connected = True\<close>, the placeholder version string and the URL of the request, for
  every body that passes validation (any URL, any API key of 32 characters) and for
  every stored configuration; the handler itself returns that answer for every request
  object and has no raising path.
\<close>

theorem test_connection_always_connected:
  "(length api_key = 32 \<longrightarrow>
      route_test_sonarr_connection settings url api_key =
        Inr (200, \<lparr>ss_connected = True, ss_version = Some ''(pending implementation)'',
                  ss_url = Some url, ss_error = None\<rparr>) \<and>
      route_test_radarr_connection settings url api_key =
        Inr (200, \<lparr>rs_connected = True, rs_version = Some ''(pending implementation)'',
                  rs_url = Some url, rs_error = None\<rparr>)) \<and>
   test_sonarr_connection settings sonarr_connection =
     Inr \<lparr>ss_connected = True, ss_version = Some ''(pending implementation)'',
          ss_url = Some (sc_url sonarr_connection), ss_error = None\<rparr> \<and>
   test_radarr_connection settings radarr_connection =
     Inr \<lparr>rs_connected = True, rs_version = Some ''(pending implementation)'',
          rs_url = Some (rc_url radarr_connection), rs_error = None\<rparr>"
  by (simp add: route_test_sonarr_connection_def route_test_radarr_connection_def
      SonarrConnectionRequest_validate_def RadarrConnectionRequest_validate_def
      test_sonarr_connection_def test_radarr_connection_def respond_def HTTP_200_OK_def)

theorem test_connection_always_connected_witness:
  "length ''00000000000000000000000000000000'' = 32 \<and>
   \<not> sonarr_configured default_settings \<and> \<not> radarr_configured default_settings \<and>
   route_test_sonarr_connection default_settings ''http://no-such-host:1''
       ''00000000000000000000000000000000'' =
     Inr (200, \<lparr>ss_connected = True, ss_version = Some ''(pending implementation)'',
               ss_url = Some ''http://no-such-host:1'', ss_error = None\<rparr>) \<and>
   route_test_radarr_connection default_settings ''http://no-such-host:1''
       ''00000000000000000000000000000000'' =
     Inr (200, \<lparr>rs_connected = True, rs_version = Some ''(pending implementation)'',
               rs_url = Some ''http://no-such-host:1'', rs_error = None\<rparr>)"
  using test_connection_always_connected
    [of "''00000000000000000000000000000000''" default_settings "''http://no-such-host:1''"]
    default_settings_sonarr default_settings_radarr
  by simp

text \<open>
  Claim C10. GET /health and GET /health/detailed answer 200 with the status field
  \<open>healthy\<close> for every configuration and every clock reading; the overall status of the
  detailed check is never \<open>unhealthy\<close> or \<open>degraded\<close>, whatever the per-service entries
  say.
\<close>

theorem health_always_healthy:
  "route_health settings now =
     Inr (200, \<lparr>h_status = ''healthy'', h_timestamp = now, h_version = ''0.1.0''\<rparr>) \<and>
   route_health_detailed settings now = Inr (200, detailed_health_check settings now) \<and>
   dh_status (detailed_health_check settings now) = ''healthy'' \<and>
   dh_status (detailed_health_check settings now) \<noteq> ''unhealthy'' \<and>
   dh_status (detailed_health_check settings now) \<noteq> ''degraded''"
  by (simp add: route_health_def route_health_detailed_def respond_def health_check_def
      detailed_health_check_def HTTP_200_OK_def app_version_def Let_def)

section \<open>Tag creation and single-movie lookup\<close>

text \<open>
  Claim C5. With Radarr configured, POST /tags answers 201 for every label of length 1
  to 50, with a tag that bears that label and the integer id 999. The empty label is
  rejected by request validation, before the handler and its guard run, so for every
  configuration; and validation rejects a label exactly when its length is below 1 or
  above 50.
\<close>

theorem create_tag_valid_labels:
  "(1 \<le> length lbl \<and> length lbl \<le> 50 \<and> radarr_configured settings \<longrightarrow>
      route_create_tag settings lbl = Inr (201, \<lparr>rt_id = 999, rt_label = lbl\<rparr>)) \<and>
   route_create_tag settings [] = Inl RequestValidationError \<and>
   (route_create_tag settings lbl = Inl RequestValidationError \<longleftrightarrow>
      length lbl < 1 \<or> 50 < length lbl)"
  by (auto simp: route_create_tag_def RadarrTagCreateRequest_validate_def respond_def
      create_tag_def require_radarr_cases HTTP_201_CREATED_def)

theorem create_tag_valid_labels_witness:
  "1 \<le> length ''HDR'' \<and> length ''HDR'' \<le> 50 \<and> radarr_configured configured_settings \<and>
   route_create_tag configured_settings ''HDR'' = Inr (201, \<lparr>rt_id = 999, rt_label = ''HDR''\<rparr>)"
  using create_tag_valid_labels [of "''HDR''" configured_settings] configured_settings_radarr
  by simp

text \<open>
  Claim C3, as amended. Tag creation does not canonicalize: with Radarr configured the
  tag returned bears the label of the request, character for character, and the
  placeholder id 999. Two accepted labels get the same answer only when they are the same
  string, so labels that differ only in case yield answers with different labels.
\<close>

theorem create_tag_label_verbatim:
  "(radarr_configured settings \<longrightarrow>
      create_tag settings tag = Inr \<lparr>rt_id = 999, rt_label = tc_label tag\<rparr>) \<and>
   (radarr_configured settings \<and> 1 \<le> length l1 \<and> length l1 \<le> 50 \<longrightarrow>
      route_create_tag settings l1 = Inr (201, \<lparr>rt_id = 999, rt_label = l1\<rparr>)) \<and>
   (radarr_configured settings \<and> 1 \<le> length l1 \<and> length l1 \<le> 50 \<and>
    1 \<le> length l2 \<and> length l2 \<le> 50 \<longrightarrow>
      (route_create_tag settings l1 = route_create_tag settings l2 \<longleftrightarrow> l1 = l2))"
  by (auto simp: route_create_tag_def RadarrTagCreateRequest_validate_def respond_def
      create_tag_def require_radarr_cases HTTP_201_CREATED_def)

theorem create_tag_label_verbatim_witness:
  "radarr_configured configured_settings \<and>
   create_tag configured_settings \<lparr>tc_label = ''Dolby-Vision''\<rparr> =
     Inr \<lparr>rt_id = 999, rt_label = ''Dolby-Vision''\<rparr> \<and>
   route_create_tag configured_settings ''IMAX'' = Inr (201, \<lparr>rt_id = 999, rt_label = ''IMAX''\<rparr>) \<and>
   route_create_tag configured_settings ''IMAX'' \<noteq> route_create_tag configured_settings ''imax''"
  using create_tag_label_verbatim
    [of configured_settings "\<lparr>tc_label = ''Dolby-Vision''\<rparr>" "''IMAX''" "''imax''"]
    configured_settings_radarr
  by auto

text \<open>
  Claim C3 as stated fails. The labels \<open>HDR\<close> and \<open>hdr\<close> differ only in case, both are
  accepted, and the two answers bear \<open>HDR\<close> and \<open>hdr\<close>. So no canonical form that
  identifies the two labels is what tag creation returns for every accepted label.
\<close>

theorem create_tag_case_variants_counterexample:
  "route_create_tag configured_settings ''HDR'' = Inr (201, \<lparr>rt_id = 999, rt_label = ''HDR''\<rparr>) \<and>
   route_create_tag configured_settings ''hdr'' = Inr (201, \<lparr>rt_id = 999, rt_label = ''hdr''\<rparr>) \<and>
   \<not> (\<exists>canon :: string \<Rightarrow> string.
        canon ''HDR'' = canon ''hdr'' \<and>
        (\<forall>l t. route_create_tag configured_settings l = Inr (201, t) \<longrightarrow> rt_label t = canon l))"
proof -
  have a: "route_create_tag configured_settings ''HDR'' = Inr (201, \<lparr>rt_id = 999, rt_label = ''HDR''\<rparr>)"
    by (simp add: route_create_tag_def RadarrTagCreateRequest_validate_def respond_def
        create_tag_def require_radarr_cases HTTP_201_CREATED_def configured_settings_radarr)
  have b: "route_create_tag configured_settings ''hdr'' = Inr (201, \<lparr>rt_id = 999, rt_label = ''hdr''\<rparr>)"
    by (simp add: route_create_tag_def RadarrTagCreateRequest_validate_def respond_def
        create_tag_def require_radarr_cases HTTP_201_CREATED_def configured_settings_radarr)
  have c: False
    if eq: "canon ''HDR'' = canon ''hdr''"
    and all: "\<forall>l t. route_create_tag configured_settings l = Inr (201, t) \<longrightarrow> rt_label t = canon l"
    for canon :: "string \<Rightarrow> string"
  proof -
    from all a have "canon ''HDR'' = ''HDR''" by fastforce
    moreover from all b have "canon ''hdr'' = ''hdr''" by fastforce
    ultimately show False using eq by simp
  qed
  from a b c show ?thesis by blast
qed

text \<open>
  Claim C4, as amended. With Radarr configured, \<open>get_movie\<close> raises HTTP 404 for every
  movie id, with the detail naming the id and the pending implementation; with Radarr
  not configured it raises 503. It consults no remote and never returns a movie.
\<close>

theorem get_movie_always_not_found:
  "(radarr_configured settings \<longrightarrow>
      get_movie settings movie_id =
        Inl (HTTPException 404
          (DetailStr (''Movie '' @ str_int movie_id @
             '' not found (endpoint pending implementation)'')))) \<and>
   (\<not> radarr_configured settings \<longrightarrow>
      (\<exists>d. get_movie settings movie_id = Inl (HTTPException 503 d))) \<and>
   get_movie settings movie_id \<noteq> Inr movie"
  by (simp add: get_movie_def require_radarr_cases HTTP_404_NOT_FOUND_def)

theorem get_movie_always_not_found_witness:
  "radarr_configured configured_settings \<and>
   get_movie configured_settings 42 =
     Inl (HTTPException 404 (DetailStr ''Movie 42 not found (endpoint pending implementation)'')) \<and>
   \<not> radarr_configured default_settings \<and>
   (\<exists>d. get_movie default_settings 42 = Inl (HTTPException 503 d))"
  using get_movie_always_not_found [of configured_settings 42]
    get_movie_always_not_found [of default_settings 42]
    configured_settings_radarr default_settings_radarr
  by (simp add: str_int_def)

text \<open>
  Claim C4 as stated fails. The claim says that not every movie id yields not-found; on
  a configured Radarr every movie id does, the id 1 among them.
\<close>

theorem get_movie_every_id_not_found_counterexample:
  "radarr_configured configured_settings \<and>
   get_movie configured_settings 1 =
     Inl (HTTPException 404 (DetailStr ''Movie 1 not found (endpoint pending implementation)'')) \<and>
   (\<forall>movie_id. \<exists>d. get_movie configured_settings movie_id = Inl (HTTPException 404 d))"
  by (simp add: get_movie_def require_radarr_cases HTTP_404_NOT_FOUND_def
      configured_settings_radarr str_int_def)

section \<open>Tag reconciliation: idempotence and the additive policy\<close>













lemma setItemTags_ok:
  assumes "setItemTags r i tag_ids payload = (Inr u, r2)"
  shows "r2 = r\<lparr>set_item_tags_calls := set_item_tags_calls r + 1,
                 remote_items := (remote_items r)(i \<mapsto> payload\<lparr>current_tags := tag_ids\<rparr>)\<rparr>"
    and "reachable r" and "remote_items r i = Some payload"
  using assms
  by (auto simp: setItemTags_def Let_def split: if_splits option.splits)

lemma reconcile_Applied:
  assumes "reconcile cfg r i det = (Applied added removed, r2)"
  obtains item resolved r1 where
    "getItem r i = Inr item"
    "resolve_all cfg r det = (Inr resolved, r1)"
    "desired_tags (tag_policy cfg) (current_tags item) resolved \<noteq> current_tags item"
    "setItemTags r1 i (desired_tags (tag_policy cfg) (current_tags item) resolved) item = (Inr (), r2)"
    "added = desired_tags (tag_policy cfg) (current_tags item) resolved - current_tags item"
    "removed = current_tags item - desired_tags (tag_policy cfg) (current_tags item) resolved"
proof -
  from assms obtain item where g: "getItem r i = Inr item"
    by (cases "getItem r i") (auto simp: reconcile_def)
  obtain x r1 where ra: "resolve_all cfg r det = (x, r1)"
    by (cases "resolve_all cfg r det")
  from assms g ra obtain resolved where x: "x = Inr resolved"
    by (cases x) (auto simp: reconcile_def)
  let ?d = "desired_tags (tag_policy cfg) (current_tags item) resolved"
  from assms g ra x have ne: "?d \<noteq> current_tags item"
    by (auto simp: reconcile_def Let_def split: if_splits)
  obtain y rb where st: "setItemTags r1 i ?d item = (y, rb)"
    by (cases "setItemTags r1 i ?d item")
  from assms g ra x ne st have "y = Inr () \<and> rb = r2 \<and> added = ?d - current_tags item \<and>
      removed = current_tags item - ?d"
    by (cases y) (auto simp: reconcile_def Let_def)
  with that g ra x ne st show thesis by simp
qed





lemma example_first_run:
  "reconcile example_config example_remote 7 [DolbyVision] =
     (Applied {3} {}, example_remote_applied)"
proof -
  have s1: "{1, 2, 3} \<noteq> {1, 2::int}"
  proof
    assume "{1, 2, 3} = {1, 2::int}"
    then have "(3::int) \<in> {1, 2}" by blast
    then show False by simp
  qed
  have s2: "{1, 2, 3} - {1, 2} = {3::int}" by auto
  have s3: "{3, 1, 2} = {1, 2, 3::int}" by auto
  show ?thesis
    by (simp add: reconcile_def getItem_def createTag_def listTags_def setItemTags_def
        desired_tags_def example_config_def example_remote_def example_remote_applied_def
        Let_def s1 s2 s3)
qed


lemma example_applied_getItem:
  "getItem example_remote_applied 7 =
     Inr \<lparr>item_id = 7, current_tags = {1, 2, 3}, runtime_minutes = Some 136\<rparr>"
  by (simp add: getItem_def example_remote_applied_def)


lemma example_getItem:
  "getItem example_remote 7 =
     Inr \<lparr>item_id = 7, current_tags = {1, 2}, runtime_minutes = Some 136\<rparr>"
  by (simp add: getItem_def example_remote_def)




lemma reconcile_additive:
  assumes "tag_policy cfg = Additive"
    and "reconcile cfg r i det = (Applied added removed, r2)"
  shows "removed = {}"
    and "\<exists>item. getItem r i = Inr item \<and>
           getItem r2 i = Inr (item\<lparr>current_tags := current_tags item \<union> added\<rparr>)"
proof -
  from assms(2) obtain item resolved r1 where
    g: "getItem r i = Inr item" and
    st: "setItemTags r1 i (desired_tags (tag_policy cfg) (current_tags item) resolved) item = (Inr (), r2)" and
    a: "added = desired_tags (tag_policy cfg) (current_tags item) resolved - current_tags item" and
    b: "removed = current_tags item - desired_tags (tag_policy cfg) (current_tags item) resolved"
    by (rule reconcile_Applied)
  from b assms(1) show "removed = {}" by (simp add: desired_tags_def)
  from a assms(1) have u: "current_tags item \<union> added =
      desired_tags (tag_policy cfg) (current_tags item) resolved"
    by (auto simp: desired_tags_def)
  note s = setItemTags_ok [OF st]
  have "getItem r2 i = Inr (item\<lparr>current_tags := current_tags item \<union> added\<rparr>)"
    using s u by (simp add: getItem_def)
  with g show "\<exists>item. getItem r i = Inr item \<and>
           getItem r2 i = Inr (item\<lparr>current_tags := current_tags item \<union> added\<rparr>)"
    by blast
qed

text \<open>
  Claim C7. Under the additive policy the desired tag set is the current set united with
  the resolved tag ids: it contains every current tag and takes none away. For the
  current tags 1 and 2 and detections resolving to tag 3 it is the set of 1, 2 and 3.
  On the engine modelled from the specification, an \<open>Applied\<close> run under the additive
  policy reports no removed tag and leaves the item with its former tags plus the added
  ones.
\<close>

theorem additive_policy_keeps_current_tags:
  "desired_tags Additive current resolved = current \<union> resolved \<and>
   current \<subseteq> desired_tags Additive current resolved \<and>
   current - desired_tags Additive current resolved = {} \<and>
   desired_tags Additive {1, 2} {3} = {1, 2, 3} \<and>
   (tag_policy cfg = Additive \<and> reconcile cfg r i det = (Applied added removed, r2) \<longrightarrow>
      removed = {} \<and>
      (\<exists>item. getItem r i = Inr item \<and>
         getItem r2 i = Inr (item\<lparr>current_tags := current_tags item \<union> added\<rparr>)))"
proof -
  have "desired_tags Additive {1, 2} {3} = {1, 2, 3}"
    by (auto simp: desired_tags_def)
  then show ?thesis
    using reconcile_additive [of cfg r i det added removed r2]
    by (auto simp: desired_tags_def)
qed

theorem additive_policy_keeps_current_tags_witness:
  "tag_policy example_config = Additive \<and>
   reconcile example_config example_remote 7 [DolbyVision] =
     (Applied {3} {}, example_remote_applied) \<and>
   getItem example_remote 7 =
     Inr \<lparr>item_id = 7, current_tags = {1, 2}, runtime_minutes = Some 136\<rparr> \<and>
   getItem example_remote_applied 7 =
     Inr \<lparr>item_id = 7, current_tags = {1, 2, 3}, runtime_minutes = Some 136\<rparr> \<and>
   desired_tags Additive {1, 2} {3} = {1, 2, 3}"
proof -
  have p: "tag_policy example_config = Additive"
    by (simp add: example_config_def)
  from additive_policy_keeps_current_tags
    [of "{1, 2}" "{3}" example_config example_remote 7 "[DolbyVision]" "{3}" "{}"
        example_remote_applied]
  have "desired_tags Additive {1, 2} {3} = {1, 2, 3}" by blast
  with p example_first_run example_getItem example_applied_getItem
  show ?thesis by simp
qed

end
